theory Spec2Isabelle
  imports Complex_Main "HOL-Library.Word"
begin

section \<open>Data model of textract/parsers/utils.py\<close>

text \<open>
  Python 3 values that flow through the parsers: a \<open>bytes\<close> object is a list of 8-bit
  words, a \<open>str\<close> is a list of Unicode code points.  What an extractor hands to
  \<open>BaseParser.decode\<close> is one or the other; \<open>isinstance(text, str)\<close> tells them apart.
\<close>

type_synonym byte = "8 word"
type_synonym bytes = "byte list"
type_synonym codepoint = nat
type_synonym unicode = "codepoint list"

datatype raw = Str unicode | Bytes bytes

text \<open>
  Modelled from the spec: the class \<open>ShellError\<close> of \<open>textract.exceptions\<close> is not
  among the sources; \<open>ShellParser.run\<close> builds it from four positional arguments, and the
  specification says the error carries the original command, the exit code, stdout and
  stderr.  The other constructors are Python built-ins, each with the one argument the
  parsers can observe (the message, or the codec name held by the \<open>encoding\<close> attribute
  of \<open>UnicodeDecodeError\<close> and \<open>UnicodeEncodeError\<close>); \<open>ExtractionError\<close> stands
  for whatever a concrete extractor raises.  Exceptions are values: a computation that
  raises returns \<open>Inl\<close> of one.
\<close>

datatype py_error =
    NotImplementedError string
  | TypeError string
  | LookupError string
  | UnicodeError string
  | UnicodeDecodeError string
  | UnicodeEncodeError string
  | ExtractionError string
  | ShellError string int bytes bytes

text \<open>
  Calls that leave the module are recorded: the detector run on a byte string, the spawn of
  a child process and the \<open>communicate\<close> call on its pipe.  A computation yields the
  calls it made, in order, and either the exception it raised or its value.
\<close>

datatype event = Detect bytes | Popen string | Communicate string

type_synonym 'a io = "event list \<times> (py_error + 'a)"

definition return_io :: "'a \<Rightarrow> 'a io" where
  "return_io x = ([], Inr x)"

definition raise_io :: "py_error \<Rightarrow> 'a io" where
  "raise_io e = ([], Inl e)"

definition lift_io :: "py_error + 'a \<Rightarrow> 'a io" where
  "lift_io r = ([], r)"

definition bind_io :: "'a io \<Rightarrow> ('a \<Rightarrow> 'b io) \<Rightarrow> 'b io" where
  "bind_io m f =
     (case m of
        (t, Inl e) \<Rightarrow> (t, Inl e)
      | (t, Inr x) \<Rightarrow> (case f x of (t', r) \<Rightarrow> (t @ t', r)))"

section \<open>The codec registry of the Python runtime\<close>

text \<open>
  \<open>str.encode(name, errors)\<close> and \<open>bytes.decode(name)\<close> look the name up in the codec
  registry and call the codec found; an unknown name is a \<open>LookupError\<close>.  A registry
  entry is two callables and the name under which the codec reports itself in its
  exceptions.  The module calls the encoder with the handler \<open>'ignore'\<close> and the decoder
  with the default handler \<open>'strict'\<close>, so the decoder is modelled in strict mode only.
  The registry itself is a parameter of the model: a function from names to entries.
\<close>

datatype errors = Strict | Ignore

record codec =
  codec_name :: string
  codec_encode :: "errors \<Rightarrow> unicode \<Rightarrow> py_error + bytes"
  codec_decode :: "bytes \<Rightarrow> py_error + unicode"

type_synonym registry = "string \<Rightarrow> codec option"

text \<open>
  The text codecs of the runtime (ASCII, Latin-1, the charmap family, UTF-8/16/32) encode
  code point by code point and call the error handler at a code point that has no encoding:
  \<open>'strict'\<close> raises \<open>UnicodeEncodeError\<close>, \<open>'ignore'\<close> replaces the code point by
  nothing and resumes after it.
\<close>

fun encode_with_handler ::
  "string \<Rightarrow> (codepoint \<Rightarrow> bytes option) \<Rightarrow> errors \<Rightarrow> unicode \<Rightarrow> py_error + bytes" where
  "encode_with_handler n tbl e [] = Inr []"
| "encode_with_handler n tbl e (x # xs) =
     (case tbl x of
        Some bs \<Rightarrow>
          (case encode_with_handler n tbl e xs of
             Inl err \<Rightarrow> Inl err
           | Inr rest \<Rightarrow> Inr (bs @ rest))
      | None \<Rightarrow>
          (case e of
             Strict \<Rightarrow> Inl (UnicodeEncodeError n)
           | Ignore \<Rightarrow> encode_with_handler n tbl e xs))"

text \<open>A strict decoder is partial; where it is undefined the codec raises
  \<open>UnicodeDecodeError\<close> under its own name.\<close>

definition text_codec ::
  "string \<Rightarrow> (codepoint \<Rightarrow> bytes option) \<Rightarrow> (bytes \<Rightarrow> unicode option) \<Rightarrow> codec" where
  "text_codec n tbl dec =
     \<lparr>codec_name = n,
      codec_encode = encode_with_handler n tbl,
      codec_decode = (\<lambda>bs. case dec bs of
                              None \<Rightarrow> Inl (UnicodeDecodeError n)
                            | Some u \<Rightarrow> Inr u)\<rparr>"

text \<open>Single-byte decoders go through a 256-entry table, byte by byte.\<close>

fun bytewise_decode :: "(byte \<Rightarrow> codepoint option) \<Rightarrow> bytes \<Rightarrow> unicode option" where
  "bytewise_decode tbl [] = Some []"
| "bytewise_decode tbl (b # bs) =
     (case tbl b of
        None \<Rightarrow> None
      | Some c \<Rightarrow> (case bytewise_decode tbl bs of None \<Rightarrow> None | Some u \<Rightarrow> Some (c # u)))"

text \<open>
  \<open>str.encode(encoding, errors)\<close> and \<open>bytes.decode(encoding)\<close>.  The detector may
  report no encoding at all (\<open>None\<close>); \<open>bytes.decode(None)\<close> is a \<open>TypeError\<close>.
\<close>

definition py_str_encode :: "registry \<Rightarrow> unicode \<Rightarrow> string \<Rightarrow> errors \<Rightarrow> py_error + bytes" where
  "py_str_encode reg text encoding errs =
     (case reg encoding of
        None \<Rightarrow> Inl (LookupError encoding)
      | Some c \<Rightarrow> codec_encode c errs text)"

definition py_bytes_decode :: "registry \<Rightarrow> bytes \<Rightarrow> string option \<Rightarrow> py_error + unicode" where
  "py_bytes_decode reg bs encoding =
     (case encoding of
        None \<Rightarrow> Inl (TypeError ''decode() argument 'encoding' must be str, not None'')
      | Some n \<Rightarrow>
          (case reg n of
             None \<Rightarrow> Inl (LookupError n)
           | Some c \<Rightarrow> codec_decode c bs))"

section \<open>The detector (chardet) and the process environment\<close>

text \<open>\<open>chardet.detect\<close> returns a dictionary; the fields are its entries
  \<open>result['encoding']\<close> and \<open>result['confidence']\<close>.  The call is recorded.\<close>

record detection =
  result_encoding :: "string option"
  result_confidence :: real

type_synonym detector = "bytes \<Rightarrow> detection"

definition chardet_detect :: "detector \<Rightarrow> bytes \<Rightarrow> detection io" where
  "chardet_detect detect bs = ([Detect bs], Inr (detect bs))"





section \<open>BaseParser\<close>

text \<open>
  The keyword arguments are a dictionary from option names to strings.  An extractor
  takes the file name and the options and yields \<open>bytes\<close> or \<open>str\<close>, or raises; it
  may make recorded calls of its own (a \<open>ShellParser\<close> subclass calls \<open>run\<close>).
  \<open>BaseParser.extract\<close> itself only raises; it is named \<open>extract_base\<close> here because
  \<open>extract\<close> is a reserved word of the theory language.
  \<^verbatim>\<open>
    def extract(self, filename, **kwargs):
        raise NotImplementedError('must be overwritten by child classes')

    def encode(self, text, encoding):
        return text.encode(encoding, 'ignore')

    def decode(self, text):
        if isinstance(text, str):
            return text
        if not text:
            return u''
        max_confidence, max_encoding = 0.0, None
        result = chardet.detect(text)
        return text.decode(result['encoding'])

    def process(self, filename, encoding, **kwargs):
        byte_string = self.extract(filename, **kwargs)
        unicode_string = self.decode(byte_string)
        return self.encode(unicode_string, encoding)
  \<close>
\<close>

type_synonym options = "string \<rightharpoonup> string"
type_synonym extractor = "string \<Rightarrow> options \<Rightarrow> raw io"

definition extract_base :: extractor where
  "extract_base filename kwargs =
     raise_io (NotImplementedError ''must be overwritten by child classes'')"

definition encode :: "registry \<Rightarrow> unicode \<Rightarrow> string \<Rightarrow> bytes io" where
  "encode reg text encoding = lift_io (py_str_encode reg text encoding Ignore)"

definition decode :: "detector \<Rightarrow> registry \<Rightarrow> raw \<Rightarrow> unicode io" where
  "decode detect reg text =
     (case text of
        Str s \<Rightarrow> return_io s
      | Bytes bs \<Rightarrow>
          if bs = [] then return_io []
          else
            (let max_confidence = (0 :: real); max_encoding = (None :: string option)
             in bind_io (chardet_detect detect bs)
                  (\<lambda>result. lift_io (py_bytes_decode reg bs (result_encoding result)))))"

text \<open>\<open>process\<close> calls \<open>self.extract\<close>, which subclasses override: the extractor is
  a parameter.\<close>

definition process ::
  "extractor \<Rightarrow> detector \<Rightarrow> registry \<Rightarrow> string \<Rightarrow> string \<Rightarrow> options \<Rightarrow> bytes io" where
  "process self_extract detect reg filename encoding kwargs =
     bind_io (self_extract filename kwargs) (\<lambda>byte_string.
     bind_io (decode detect reg byte_string) (\<lambda>unicode_string.
     encode reg unicode_string encoding))"

section \<open>ShellParser\<close>


section \<open>Concrete codecs, detectors and commands\<close>

text \<open>Four entries of CPython's registry.  \<open>iso8859-15\<close> is Latin-1 with eight positions
  reassigned; \<open>undefined\<close> (\<open>encodings/undefined.py\<close>) raises \<open>UnicodeError\<close> on every
  call, whatever the handler.\<close>

definition ascii_codec :: codec where
  "ascii_codec =
     text_codec ''ascii''
       (\<lambda>x. if x < 128 then Some [of_nat x] else None)
       (bytewise_decode (\<lambda>b. if unat b < 128 then Some (unat b) else None))"

definition latin_1_codec :: codec where
  "latin_1_codec =
     text_codec ''latin-1''
       (\<lambda>x. if x < 256 then Some [of_nat x] else None)
       (bytewise_decode (\<lambda>b. Some (unat b)))"

definition iso8859_15_table :: "(byte \<times> codepoint) list" where
  "iso8859_15_table =
     [(0xA4, 0x20AC), (0xA6, 0x160), (0xA8, 0x161), (0xB4, 0x17D),
      (0xB8, 0x17E), (0xBC, 0x152), (0xBD, 0x153), (0xBE, 0x178)]"

definition iso8859_15_codec :: codec where
  "iso8859_15_codec =
     text_codec ''iso8859-15''
       (\<lambda>x. case map_of (map (\<lambda>(b, c). (c, b)) iso8859_15_table) x of
              Some b \<Rightarrow> Some [b]
            | None \<Rightarrow>
                if x < 256 \<and> map_of iso8859_15_table (of_nat x) = None
                then Some [of_nat x] else None)
       (bytewise_decode (\<lambda>b. case map_of iso8859_15_table b of
                                Some c \<Rightarrow> Some c
                              | None \<Rightarrow> Some (unat b)))"

definition undefined_codec :: codec where
  "undefined_codec =
     \<lparr>codec_name = ''undefined'',
      codec_encode = (\<lambda>errs text. Inl (UnicodeError ''undefined encoding'')),
      codec_decode = (\<lambda>bs. Inl (UnicodeError ''undefined encoding''))\<rparr>"

definition py_registry :: registry where
  "py_registry n =
     (if n = ''ascii'' then Some ascii_codec
      else if n = ''latin-1'' then Some latin_1_codec
      else if n = ''iso8859-15'' then Some iso8859_15_codec
      else if n = ''undefined'' then Some undefined_codec
      else None)"

text \<open>A detector that reports a fixed name and confidence, a process environment that
  knows two commands, and an extractor that knows four files.\<close>

definition guess :: "string option \<Rightarrow> real \<Rightarrow> detector" where
  "guess n c = (\<lambda>bs. \<lparr>result_encoding = n, result_confidence = c\<rparr>)"


definition sample_extract :: extractor where
  "sample_extract filename kwargs =
     (if filename = ''sample.txt'' then return_io (Bytes [0x61, 0x62, 0x63])
      else if filename = ''empty.txt'' then return_io (Bytes [])
      else if filename = ''latin.txt'' then return_io (Bytes [0x63, 0x61, 0x66, 0xE9])
      else if filename = ''text.html'' then return_io (Str [0x63, 0x61, 0x66, 0xE9])
      else raise_io (ExtractionError filename))"

text \<open>A text is expressible in a codec when encoding it in strict mode succeeds, that
  is, when every code point of it lies in the codec's character set.\<close>

definition expressible :: "codec \<Rightarrow> unicode \<Rightarrow> bool" where
  "expressible c u = (case codec_encode c Strict u of Inl e \<Rightarrow> False | Inr bs \<Rightarrow> True)"

section \<open>Laws of sequencing and of the codecs\<close>

lemmas io_defs = return_io_def raise_io_def lift_io_def bind_io_def chardet_detect_def

lemma bind_io_Inr: "bind_io (t, Inr x) f = (t @ fst (f x), snd (f x))"
  by (simp add: bind_io_def split: prod.splits)

lemma encode_with_handler_ignore:
  "encode_with_handler n tbl Ignore u = Inr (concat (List.map_filter tbl u))"
  by (induction u) (auto simp: List.map_filter_simps split: option.splits)



lemma map_filter_single:
  "\<forall>x\<in>set u. tbl x = Some [f x] \<Longrightarrow> concat (List.map_filter tbl u) = map f u"
  by (induction u) (auto simp: List.map_filter_simps)

lemma bytewise_decode_map:
  "\<forall>x\<in>set u. tbl (f x) = Some x \<Longrightarrow> bytewise_decode tbl (map f u) = Some u"
  by (induction u) auto

lemma unat_byte: "x < 256 \<Longrightarrow> unat (of_nat x :: byte) = x"
  by (simp add: unat_of_nat)

text \<open>Latin-1 maps the code points below 256 to one byte each and back.\<close>

lemma latin_1_lossless:
  assumes "\<forall>x\<in>set u. x < 256"
  shows "codec_encode latin_1_codec Ignore u = Inr (map of_nat u)"
    and "codec_decode latin_1_codec (map of_nat u) = Inr u"
proof -
  from assms
  have "concat (List.map_filter (\<lambda>x. if x < 256 then Some [of_nat x :: byte] else None) u)
          = map of_nat u"
    by (intro map_filter_single) simp
  then show "codec_encode latin_1_codec Ignore u = Inr (map of_nat u)"
    by (simp add: latin_1_codec_def text_codec_def encode_with_handler_ignore)
  from assms
  have "bytewise_decode (\<lambda>b. Some (unat b)) (map (of_nat :: nat \<Rightarrow> byte) u) = Some u"
    by (intro bytewise_decode_map) (simp add: unat_byte)
  then show "codec_decode latin_1_codec (map of_nat u) = Inr u"
    by (simp add: latin_1_codec_def text_codec_def)
qed

text \<open>On a non-empty byte string \<open>decode\<close> runs the detector once and hands the
  reported name to \<open>bytes.decode\<close>.\<close>

lemma decode_bytes_nonempty:
  "bs \<noteq> [] \<Longrightarrow>
   decode detect reg (Bytes bs) =
     ([Detect bs], py_bytes_decode reg bs (result_encoding (detect bs)))"
  by (simp add: decode_def io_defs)

lemma py_registry_simps:
  "py_registry ''ascii'' = Some ascii_codec"
  "py_registry ''latin-1'' = Some latin_1_codec"
  "py_registry ''iso8859-15'' = Some iso8859_15_codec"
  "py_registry ''undefined'' = Some undefined_codec"
  "py_registry ''klingon'' = None"
  by (simp_all add: py_registry_def)

section \<open>The pipeline\<close>

text \<open>
  Claim C1.  For every extractor, file name, target encoding and options mapping,
  \<open>BaseParser.process\<close> is the three stages in line: it calls the extractor once; when
  that raises, the same exception leaves \<open>process\<close>; otherwise it decodes the extractor's
  value once, and an exception of \<open>decode\<close> leaves \<open>process\<close> unchanged; otherwise the
  outcome is that of \<open>encode\<close> on the decoded text with the requested encoding.  The
  calls made are those of the three stages in that order, each stage once, and the result
  is either an exception or the complete output of \<open>encode\<close>.
\<close>

theorem process_is_extract_decode_encode:
  "process self_extract detect reg filename encoding kwargs =
     (case self_extract filename kwargs of
        (t1, Inl e) \<Rightarrow> (t1, Inl e)
      | (t1, Inr byte_string) \<Rightarrow>
          (case decode detect reg byte_string of
             (t2, Inl e) \<Rightarrow> (t1 @ t2, Inl e)
           | (t2, Inr unicode_string) \<Rightarrow>
               (case encode reg unicode_string encoding of
                  (t3, r) \<Rightarrow> (t1 @ t2 @ t3, r))))"
  by (simp add: process_def bind_io_def split: prod.splits sum.splits)

theorem process_is_extract_decode_encode_witness:
  "process sample_extract (guess (Some ''ascii'') 1) py_registry
       ''sample.txt'' ''latin-1'' Map.empty
     = ([Detect [0x61, 0x62, 0x63]], Inr [0x61, 0x62, 0x63]) \<and>
   process sample_extract (guess (Some ''ascii'') 1) py_registry
       ''latin.txt'' ''latin-1'' Map.empty
     = ([Detect [0x63, 0x61, 0x66, 0xE9]], Inl (UnicodeDecodeError ''ascii'')) \<and>
   process sample_extract (guess (Some ''ascii'') 1) py_registry
       ''scan.pdf'' ''latin-1'' Map.empty
     = ([], Inl (ExtractionError ''scan.pdf'')) \<and>
   process sample_extract (guess (Some ''ascii'') 1) py_registry
       ''text.html'' ''klingon'' Map.empty
     = ([], Inl (LookupError ''klingon'')) \<and>
   process extract_base (guess (Some ''ascii'') 1) py_registry
       ''sample.txt'' ''latin-1'' Map.empty
     = ([], Inl (NotImplementedError ''must be overwritten by child classes''))"
  by (simp add: process_is_extract_decode_encode sample_extract_def extract_base_def
      decode_def encode_def io_defs guess_def py_bytes_decode_def py_str_encode_def
      py_registry_def ascii_codec_def latin_1_codec_def text_codec_def)

section \<open>Running external commands\<close>



section \<open>Decoding\<close>

text \<open>
  Claim C6.  \<open>BaseParser.decode\<close> returns a value that is already a \<open>str\<close> as it is,
  without calling the detector; so decoding the result of a \<open>decode\<close> call again changes
  nothing.
\<close>

theorem decode_str_unchanged:
  "decode detect reg (Str s) = ([], Inr s) \<and>
   bind_io (decode detect reg content) (\<lambda>u. decode detect reg (Str u))
     = decode detect reg content"
  by (cases "decode detect reg content") (auto simp: decode_def io_defs split: sum.splits)

theorem decode_str_unchanged_witness:
  "decode (guess (Some ''latin-1'') 1) py_registry (Str [0x63, 0x61, 0x66, 0xE9])
     = ([], Inr [0x63, 0x61, 0x66, 0xE9]) \<and>
   bind_io (decode (guess (Some ''latin-1'') 1) py_registry (Bytes [0x63, 0x61, 0x66, 0xE9]))
       (\<lambda>u. decode (guess (Some ''latin-1'') 1) py_registry (Str u))
     = ([Detect [0x63, 0x61, 0x66, 0xE9]], Inr [0x63, 0x61, 0x66, 0xE9])"
proof -
  have "decode (guess (Some ''latin-1'') 1) py_registry (Bytes [0x63, 0x61, 0x66, 0xE9])
          = ([Detect [0x63, 0x61, 0x66, 0xE9]], Inr [0x63, 0x61, 0x66, 0xE9])"
    by (simp add: decode_bytes_nonempty guess_def py_bytes_decode_def py_registry_simps
        latin_1_codec_def text_codec_def)
  then show ?thesis
    using decode_str_unchanged [where detect = "guess (Some ''latin-1'') 1"
        and reg = py_registry and s = "[0x63, 0x61, 0x66, 0xE9]"
        and content = "Bytes [0x63, 0x61, 0x66, 0xE9]"]
    by simp
qed

text \<open>
  Claim C7.  \<open>BaseParser.decode\<close> of the empty byte string is the empty \<open>str\<close>, and no
  call of the detector is made on the way.
\<close>

theorem decode_empty_bytes:
  "decode detect reg (Bytes []) = ([], Inr [])"
  by (simp add: decode_def io_defs)

theorem decode_empty_bytes_witness:
  "decode (guess None 0) py_registry (Bytes []) = ([], Inr []) \<and>
   process sample_extract (guess None 0) py_registry ''empty.txt'' ''ascii'' Map.empty
     = ([], Inr [])"
  by (simp add: decode_empty_bytes process_def sample_extract_def encode_def io_defs
      py_str_encode_def py_registry_simps ascii_codec_def text_codec_def)

text \<open>
  Claim C10.  On a non-empty byte string the outcome of \<open>BaseParser.decode\<close> is that of
  \<open>bytes.decode\<close> with the encoding name the detector reports, after one detector call.
  The reported confidence plays no part: two detectors that report the same name for the
  bytes, with whatever confidence, give the same outcome.
\<close>

theorem decode_ignores_confidence:
  assumes "bs \<noteq> []"
  shows "decode detect reg (Bytes bs) =
           ([Detect bs], py_bytes_decode reg bs (result_encoding (detect bs))) \<and>
         (result_encoding (detect' bs) = result_encoding (detect bs) \<longrightarrow>
            decode detect' reg (Bytes bs) = decode detect reg (Bytes bs))"
  using assms by (simp add: decode_bytes_nonempty)

theorem decode_ignores_confidence_witness:
  "[0x63, 0x61, 0x66, 0xE9] \<noteq> ([] :: bytes) \<and>
   result_confidence (guess (Some ''latin-1'') 0.01 [0x63, 0x61, 0x66, 0xE9])
     \<noteq> result_confidence (guess (Some ''latin-1'') 0.99 [0x63, 0x61, 0x66, 0xE9]) \<and>
   result_encoding (guess (Some ''latin-1'') 0.01 [0x63, 0x61, 0x66, 0xE9])
     = result_encoding (guess (Some ''latin-1'') 0.99 [0x63, 0x61, 0x66, 0xE9]) \<and>
   decode (guess (Some ''latin-1'') 0.01) py_registry (Bytes [0x63, 0x61, 0x66, 0xE9])
     = decode (guess (Some ''latin-1'') 0.99) py_registry (Bytes [0x63, 0x61, 0x66, 0xE9]) \<and>
   decode (guess (Some ''latin-1'') 0.99) py_registry (Bytes [0x63, 0x61, 0x66, 0xE9])
     = ([Detect [0x63, 0x61, 0x66, 0xE9]], Inr [0x63, 0x61, 0x66, 0xE9])"
proof -
  have ne: "[0x63, 0x61, 0x66, 0xE9] \<noteq> ([] :: bytes)"
    by simp
  have same: "result_encoding (guess (Some ''latin-1'') 0.01 [0x63, 0x61, 0x66, 0xE9])
                = result_encoding (guess (Some ''latin-1'') 0.99 [0x63, 0x61, 0x66, 0xE9])"
    by (simp add: guess_def)
  have conf: "result_confidence (guess (Some ''latin-1'') 0.01 [0x63, 0x61, 0x66, 0xE9])
                \<noteq> result_confidence (guess (Some ''latin-1'') 0.99 [0x63, 0x61, 0x66, 0xE9])"
    by (simp add: guess_def)
  have val: "py_bytes_decode py_registry [0x63, 0x61, 0x66, 0xE9]
               (result_encoding (guess (Some ''latin-1'') 0.99 [0x63, 0x61, 0x66, 0xE9]))
             = Inr [0x63, 0x61, 0x66, 0xE9]"
    by (simp add: guess_def py_bytes_decode_def py_registry_simps latin_1_codec_def
        text_codec_def)
  from decode_ignores_confidence [OF ne, of "guess (Some ''latin-1'') 0.99" py_registry
      "guess (Some ''latin-1'') 0.01"] same conf val ne
  show ?thesis by simp
qed



section \<open>Encoding\<close>

text \<open>
  Claim C4.  For every text, \<open>BaseParser.encode\<close> with an encoding name that the registry
  does not know raises the registry's lookup error for that name; no other encoding is
  used in its place and no bytes are produced.
\<close>

theorem encode_unknown_encoding_raises:
  "reg encoding = None \<Longrightarrow> encode reg u encoding = ([], Inl (LookupError encoding))"
  by (simp add: encode_def lift_io_def py_str_encode_def)

theorem encode_unknown_encoding_raises_witness:
  "py_registry ''klingon'' = None \<and>
   encode py_registry [0x63, 0x61, 0x66, 0xE9] ''klingon'' = ([], Inl (LookupError ''klingon''))"
  using encode_unknown_encoding_raises [of py_registry "''klingon''" "[0x63, 0x61, 0x66, 0xE9]"]
  by (simp add: py_registry_simps)




section \<open>Encoding and decoding again\<close>

text \<open>
  Claim C8, amended.  Let the codec of a recognized encoding \<open>enc\<close> recover a text from
  its own encoding of it (the text is expressible in \<open>enc\<close> and the codec is lossless on
  it).  Then \<open>decode(encode(text, enc))\<close> is the text again provided the encoded bytes are
  empty or the detector, run on them, reports a name that resolves to that same codec.
  \<open>decode\<close> is not told \<open>enc\<close>: the detector alone chooses the codec.
\<close>

theorem roundtrip_when_guess_resolves:
  assumes "reg enc = Some c"
    and "codec_encode c Ignore u = Inr bs"
    and "codec_decode c bs = Inr u"
    and "codec_decode c [] = Inr []"
    and "bs \<noteq> [] \<longrightarrow> (\<exists>g. result_encoding (detect bs) = Some g \<and> reg g = Some c)"
  shows "bind_io (encode reg u enc) (\<lambda>b. decode detect reg (Bytes b))
           = (if bs = [] then [] else [Detect bs], Inr u)"
proof (cases "bs = []")
  case True
  with assms show ?thesis
    by (simp add: encode_def py_str_encode_def decode_def io_defs)
next
  case False
  with assms obtain g where "result_encoding (detect bs) = Some g" and "reg g = Some c"
    by blast
  with False assms show ?thesis
    by (simp add: encode_def py_str_encode_def lift_io_def bind_io_Inr decode_bytes_nonempty
        py_bytes_decode_def)
qed

theorem roundtrip_when_guess_resolves_witness:
  "py_registry ''latin-1'' = Some latin_1_codec \<and>
   codec_encode latin_1_codec Ignore [0x63, 0x61, 0x66, 0xE9] = Inr [0x63, 0x61, 0x66, 0xE9] \<and>
   codec_decode latin_1_codec [0x63, 0x61, 0x66, 0xE9] = Inr [0x63, 0x61, 0x66, 0xE9] \<and>
   codec_decode latin_1_codec [] = Inr [] \<and>
   result_encoding (guess (Some ''latin-1'') 0.73 [0x63, 0x61, 0x66, 0xE9]) = Some ''latin-1'' \<and>
   bind_io (encode py_registry [0x63, 0x61, 0x66, 0xE9] ''latin-1'')
       (\<lambda>b. decode (guess (Some ''latin-1'') 0.73) py_registry (Bytes b))
     = ([Detect [0x63, 0x61, 0x66, 0xE9]], Inr [0x63, 0x61, 0x66, 0xE9])"
proof -
  have r: "py_registry ''latin-1'' = Some latin_1_codec"
    by (rule py_registry_simps)
  have e: "codec_encode latin_1_codec Ignore [0x63, 0x61, 0x66, 0xE9]
             = Inr [0x63, 0x61, 0x66, 0xE9]"
    using latin_1_lossless(1) [of "[0x63, 0x61, 0x66, 0xE9]"] by simp
  have d: "codec_decode latin_1_codec [0x63, 0x61, 0x66, 0xE9] = Inr [0x63, 0x61, 0x66, 0xE9]"
    using latin_1_lossless(2) [of "[0x63, 0x61, 0x66, 0xE9]"] by simp
  have n: "codec_decode latin_1_codec [] = Inr []"
    by (simp add: latin_1_codec_def text_codec_def)
  have g: "result_encoding (guess (Some ''latin-1'') 0.73 [0x63, 0x61, 0x66, 0xE9])
             = Some ''latin-1''"
    by (simp add: guess_def)
  have k: "[0x63, 0x61, 0x66, 0xE9] \<noteq> ([] :: bytes) \<longrightarrow>
             (\<exists>g. result_encoding (guess (Some ''latin-1'') 0.73 [0x63, 0x61, 0x66, 0xE9]) = Some g
                \<and> py_registry g = Some latin_1_codec)"
    using g r by simp
  from roundtrip_when_guess_resolves [where reg = py_registry and enc = "''latin-1''"
      and c = latin_1_codec and u = "[0x63, 0x61, 0x66, 0xE9]"
      and bs = "[0x63, 0x61, 0x66, 0xE9]" and detect = "guess (Some ''latin-1'') 0.73",
      OF r e d n k] r e d n g
  show ?thesis by simp
qed

text \<open>
  The claim as worded, for every expressible text and every recognized encoding, fails
  whatever the detector is.  The euro sign in ISO 8859-15 and the currency sign in Latin-1
  both encode to the single byte A4; \<open>decode\<close> sees that byte alone and returns one
  outcome for it, which cannot be both texts.
\<close>

lemma euro_sign_roundtrip:
  "expressible iso8859_15_codec [0x20AC] \<and>
   snd (bind_io (encode py_registry [0x20AC] ''iso8859-15'')
          (\<lambda>b. decode detect py_registry (Bytes b)))
     = py_bytes_decode py_registry [0xA4] (result_encoding (detect [0xA4]))"
  by (simp add: expressible_def encode_def lift_io_def py_str_encode_def py_registry_simps
      iso8859_15_codec_def text_codec_def iso8859_15_table_def bind_io_Inr
      decode_bytes_nonempty)

lemma currency_sign_roundtrip:
  "expressible latin_1_codec [0xA4] \<and>
   snd (bind_io (encode py_registry [0xA4] ''latin-1'')
          (\<lambda>b. decode detect py_registry (Bytes b)))
     = py_bytes_decode py_registry [0xA4] (result_encoding (detect [0xA4]))"
  by (simp add: expressible_def encode_def lift_io_def py_str_encode_def py_registry_simps
      latin_1_codec_def text_codec_def bind_io_Inr decode_bytes_nonempty)

theorem roundtrip_fails_for_every_detector:
  "\<not> (\<exists>detect. \<forall>u enc c.
         py_registry enc = Some c \<longrightarrow> expressible c u \<longrightarrow>
         snd (bind_io (encode py_registry u enc) (\<lambda>b. decode detect py_registry (Bytes b)))
           = Inr u)"
proof
  assume "\<exists>detect. \<forall>u enc c.
            py_registry enc = Some c \<longrightarrow> expressible c u \<longrightarrow>
            snd (bind_io (encode py_registry u enc) (\<lambda>b. decode detect py_registry (Bytes b)))
              = Inr u"
  then obtain detect where all:
    "\<And>u enc c. py_registry enc = Some c \<Longrightarrow> expressible c u \<Longrightarrow>
       snd (bind_io (encode py_registry u enc) (\<lambda>b. decode detect py_registry (Bytes b)))
         = Inr u"
    by blast
  have "py_bytes_decode py_registry [0xA4] (result_encoding (detect [0xA4])) = Inr [0x20AC]"
    using all [of "''iso8859-15''" iso8859_15_codec "[0x20AC]"] euro_sign_roundtrip [of detect]
    by (simp add: py_registry_simps)
  moreover
  have "py_bytes_decode py_registry [0xA4] (result_encoding (detect [0xA4])) = Inr [0xA4]"
    using all [of "''latin-1''" latin_1_codec "[0xA4]"] currency_sign_roundtrip [of detect]
    by (simp add: py_registry_simps)
  ultimately show False
    by simp
qed

end
